theory Spec2Isabelle
  imports Main
begin

section \<open>The Processing view of src/pages/Dashboard.tsx\<close>

text \<open>
  The Processing component drives a progress screen by polling
  \<^verbatim>\<open>GET {backend}/jobs/{jobId}\<close>. The embedding below follows the component
  statement by statement. What the browser and React provide is made explicit:
  \<^item> the five \<^verbatim>\<open>useState\<close> cells, the \<^verbatim>\<open>localStorage\<close> slot
    \<^verbatim>\<open>retryCount\<close>, the pending timers, a clock in milliseconds and the list of
    outputs (console errors, fetches, navigations) form one record, \<open>world\<close>;
  \<^item> \<^verbatim>\<open>location.state\<close> and \<^verbatim>\<open>import.meta.env.VITE_BACKEND_URL\<close>, which the
    closures only read, are parameters;
  \<^item> the result of \<^verbatim>\<open>await fetch(...)\<close> is a parameter of the poll cycle: a thrown
    value, or a response with its \<^verbatim>\<open>ok\<close> flag and what \<^verbatim>\<open>response.json()\<close>
    yields;
  \<^item> \<^verbatim>\<open>setTimeout\<close> adds a timer to the world; firing the timer that is due first
    is the function \<open>tick\<close>.
\<close>

subsection \<open>Data\<close>

text \<open>\<^verbatim>\<open>interface ProcessingState\<close>. The object comes from \<^verbatim>\<open>location.state\<close> by a
  cast, so \<^verbatim>\<open>jobId\<close> may be missing at run time.\<close>

record ProcessingState =
  filename :: string
  questionLanguage :: string
  explanationLanguage :: string
  numberOfQuestions :: string
  outputFormat :: string
  jobId :: "string option"

text \<open>The object handed to \<^verbatim>\<open>/results\<close>: \<^verbatim>\<open>{...state, jobId, questionsGenerated,
  topicsDetected, questionsPreview}\<close>. The element type of the preview is opaque to the
  component, hence a type parameter.\<close>

record 'q ResultsState = ProcessingState +
  questionsGenerated :: int
  topicsDetected :: int
  questionsPreview :: "'q list"

text \<open>The fields of the parsed body \<^verbatim>\<open>data\<close> that \<^verbatim>\<open>pollStatus\<close> reads; \<open>None\<close> is
  a field that is absent. Numbers are the integers of the backend interface.\<close>

record 'q JobStatus =
  data_status :: "string option"
  data_progress :: "int option"
  data_step :: "int option"
  data_eta :: "int option"
  data_logs :: "string list option"
  data_error :: "string option"
  data_questions_generated :: "int option"
  data_topics_detected :: "int option"
  data_questions_preview :: "'q list option"

text \<open>What a \<^verbatim>\<open>catch\<close> clause can receive: an \<^verbatim>\<open>Error\<close> instance with its message,
  or any other thrown value.\<close>

datatype thrown = Error string | Thrown_other

datatype 'a attempt = Throws thrown | Returns 'a

record 'q response =
  ok :: bool
  json :: "'q JobStatus attempt"

type_synonym 'q fetch_result = "'q response attempt"

datatype 'q effect =
    ConsoleError string
  | Fetch string
  | Navigate string "'q ResultsState option"

text \<open>The two callbacks the component hands to \<^verbatim>\<open>setTimeout\<close>: \<^verbatim>\<open>resolve\<close> of the
  backoff promise (line 556), after which \<^verbatim>\<open>pollStatus\<close> continues behind its
  \<^verbatim>\<open>await\<close>, and \<^verbatim>\<open>() => pollStatus()\<close> (lines 535 and 559).\<close>

datatype callback = Resume_backoff | Call_pollStatus

record timer =
  due :: nat
  callback :: callback

text \<open>The \<^verbatim>\<open>localStorage\<close> slot holds \<^verbatim>\<open>currentRetry.toString()\<close> and is read back
  with \<^verbatim>\<open>parseInt\<close>; nothing else in the repository writes the key. The model stores
  the number itself (\<open>None\<close>: the key is absent) and takes \<^verbatim>\<open>parseInt\<close> after
  \<^verbatim>\<open>toString\<close> as the identity on naturals.\<close>

record 'q world =
  now :: nat
  currentStep :: int
  progress :: int
  estimatedTime :: int
  logs :: "string list"
  error :: "string option"
  retryCount :: "nat option"
  timers :: "timer list"
  out :: "(nat \<times> 'q effect) list"

definition initial :: "nat option \<Rightarrow> 'q world" where
  "initial stored =
     \<lparr>now = 0, currentStep = 0, progress = 0, estimatedTime = 60, logs = [],
      error = None, retryCount = stored, timers = [], out = []\<rparr>"

subsection \<open>JavaScript operators\<close>

text \<open>\<^verbatim>\<open>a || b\<close> on an optional string, an optional number and an optional array: the
  empty string and 0 are falsy, every array is truthy.\<close>

definition or_str :: "string option \<Rightarrow> string \<Rightarrow> string" where
  "or_str a b = (case a of None \<Rightarrow> b | Some s \<Rightarrow> if s = [] then b else s)"

definition or_num :: "int option \<Rightarrow> int \<Rightarrow> int" where
  "or_num a b = (case a of None \<Rightarrow> b | Some n \<Rightarrow> if n = 0 then b else n)"

definition or_list :: "'a list option \<Rightarrow> 'a list \<Rightarrow> 'a list" where
  "or_list a b = (case a of None \<Rightarrow> b | Some xs \<Rightarrow> xs)"

text \<open>An optional number as the condition of an \<^verbatim>\<open>if\<close>.\<close>

definition truthy_num :: "int option \<Rightarrow> bool" where
  "truthy_num a = (case a of None \<Rightarrow> False | Some n \<Rightarrow> n \<noteq> 0)"

text \<open>Decimal rendering of a number inside a template literal.\<close>

fun digits :: "nat \<Rightarrow> string" where
  "digits n =
     (if n < 10 then [''0123456789'' ! n]
      else digits (n div 10) @ [''0123456789'' ! (n mod 10)])"

declare digits.simps [simp del]

definition show_num :: "int \<Rightarrow> string" where
  "show_num n = (if n < 0 then CHR ''-'' # digits (nat (- n)) else digits (nat n))"

definition template_num :: "int option \<Rightarrow> string" where
  "template_num a = (case a of None \<Rightarrow> ''undefined'' | Some n \<Rightarrow> show_num n)"

subsection \<open>The stage list (lines 446-482)\<close>

datatype step_status = pending | in_progress | completed

record ProcessStep =
  id' :: string
  title :: string
  description :: string
  status :: step_status

definition steps :: "int \<Rightarrow> ProcessStep list" where
  "steps cur =
     [\<lparr>id' = ''upload'', title = ''File Uploaded'',
       description = ''Document has been successfully uploaded'',
       status = completed\<rparr>,
      \<lparr>id' = ''extract'', title = ''Extracting Content'',
       description = ''Reading and parsing document content'',
       status = (if cur \<ge> 1 then completed else if cur = 0 then in_progress else pending)\<rparr>,
      \<lparr>id' = ''analyze'', title = ''Analyzing Topics'',
       description = ''Identifying key topics and concepts'',
       status = (if cur \<ge> 2 then completed else if cur = 1 then in_progress else pending)\<rparr>,
      \<lparr>id' = ''generate'', title = ''Generating Questions'',
       description = ''Creating questions and explanations'',
       status = (if cur \<ge> 3 then completed else if cur = 2 then in_progress else pending)\<rparr>,
      \<lparr>id' = ''finalize'', title = ''Finalizing'',
       description = ''Formatting output and preparing download'',
       status = (if cur \<ge> 4 then completed else if cur = 3 then in_progress else pending)\<rparr>]"

subsection \<open>Browser primitives\<close>

definition emit :: "'q effect \<Rightarrow> 'q world \<Rightarrow> 'q world" where
  "emit e w = w\<lparr>out := out w @ [(now w, e)]\<rparr>"

definition setTimeout :: "callback \<Rightarrow> nat \<Rightarrow> 'q world \<Rightarrow> 'q world" where
  "setTimeout cb ms w = w\<lparr>timers := timers w @ [\<lparr>due = now w + ms, callback = cb\<rparr>]\<rparr>"

subsection \<open>pollStatus (lines 484-566)\<close>

text \<open>The status line appended to the transcript (lines 499-506).\<close>

definition statusLog :: "'q JobStatus \<Rightarrow> string" where
  "statusLog data =
     ''Status: '' @ or_str (data_status data) ''unknown'' @ '' - ''
       @ template_num (data_progress data) @ ''% complete''
       @ (if truthy_num (data_step data)
          then '' - Step '' @ template_num (data_step data) else [])
       @ (case data_logs data of
            None \<Rightarrow> []
          | Some ls \<Rightarrow> if length ls > 0 then '' - Last log: '' @ last ls else [])"

text \<open>The first statements of the \<^verbatim>\<open>try\<close> block (lines 492-496): the fetch, the
  \<^verbatim>\<open>response.ok\<close> test and \<^verbatim>\<open>response.json()\<close>. \<open>Inl\<close> is the value that reaches
  the \<^verbatim>\<open>catch\<close> clause. A body that parses to \<^verbatim>\<open>null\<close> makes the first read of
  \<^verbatim>\<open>data.status\<close> throw a \<^verbatim>\<open>TypeError\<close>; it is a \<open>Throws\<close> of \<open>json\<close> here.\<close>

definition try_fetch :: "'q fetch_result \<Rightarrow> thrown + 'q JobStatus" where
  "try_fetch r =
     (case r of
        Throws e \<Rightarrow> Inl e
      | Returns resp \<Rightarrow>
          if \<not> ok resp then Inl (Error ''Failed to fetch job status'')
          else (case json resp of Throws e \<Rightarrow> Inl e | Returns data \<Rightarrow> Inr data))"

text \<open>\<^verbatim>\<open>error instanceof Error ? error.message : 'An error occurred'\<close>\<close>

definition message_of :: "thrown \<Rightarrow> string" where
  "message_of e = (case e of Error m \<Rightarrow> m | Thrown_other \<Rightarrow> ''An error occurred'')"

text \<open>The \<^verbatim>\<open>catch\<close> clause up to its \<^verbatim>\<open>await\<close> (lines 543-556).\<close>

definition catch_block :: "thrown \<Rightarrow> 'q world \<Rightarrow> 'q world" where
  "catch_block e w =
     (let currentRetry = (case retryCount w of None \<Rightarrow> 0 | Some n \<Rightarrow> n) + 1;
          w1 = w\<lparr>retryCount := Some currentRetry\<rparr>
      in if currentRetry \<ge> 5
         then w1\<lparr>error := Some (message_of e),
                 logs := logs w1 @ [message_of e],
                 retryCount := None\<rparr>
         else setTimeout Resume_backoff (2 ^ currentRetry * 1000) w1)"

text \<open>The rest of the \<^verbatim>\<open>catch\<close> clause, run when the backoff promise resolves
  (lines 558-559).\<close>

definition after_backoff :: "'q world \<Rightarrow> 'q world" where
  "after_backoff w = setTimeout Call_pollStatus 2000 w"

definition handoff :: "ProcessingState \<Rightarrow> 'q JobStatus \<Rightarrow> 'q ResultsState" where
  "handoff s data =
     \<lparr>filename = filename s, questionLanguage = questionLanguage s,
      explanationLanguage = explanationLanguage s,
      numberOfQuestions = numberOfQuestions s, outputFormat = outputFormat s,
      jobId = jobId s,
      questionsGenerated = or_num (data_questions_generated data) 0,
      topicsDetected = or_num (data_topics_detected data) 0,
      questionsPreview = or_list (data_questions_preview data) []\<rparr>"

text \<open>The \<^verbatim>\<open>try\<close> block behind \<^verbatim>\<open>response.json()\<close> (lines 498-535).\<close>

definition on_data :: "ProcessingState \<Rightarrow> 'q JobStatus \<Rightarrow> 'q world \<Rightarrow> 'q world" where
  "on_data s data w =
     (let w1 = w\<lparr>logs := logs w @ [statusLog data]\<rparr>
      in if data_status data = Some ''completed'' \<or> data_status data = Some ''error''
         then if data_status data = Some ''error''
              then w1\<lparr>error := Some (or_str (data_error data) ''An error occurred''),
                      logs := logs w1 @ [or_str (data_error data) ''An error occurred'']\<rparr>
              else emit (Navigate ''/results'' (Some (handoff s data))) w1
         else setTimeout Call_pollStatus 2000
                (w1\<lparr>progress := or_num (data_progress data) 0,
                    currentStep := or_num (data_step data) 0,
                    estimatedTime := or_num (data_eta data) 0\<rparr>))"

text \<open>The guard \<^verbatim>\<open>!state?.jobId\<close>: \<open>None\<close> when the state, the field or its text is
  missing, else the state and its job id.\<close>

definition job_of :: "ProcessingState option \<Rightarrow> (ProcessingState \<times> string) option" where
  "job_of st =
     (case st of
        None \<Rightarrow> None
      | Some s \<Rightarrow> (case jobId s of
                    None \<Rightarrow> None
                  | Some j \<Rightarrow> if j = [] then None else Some (s, j)))"

definition job_url :: "string option \<Rightarrow> string \<Rightarrow> string" where
  "job_url backend j = or_str backend ''http://localhost:8000'' @ ''/jobs/'' @ j"

text \<open>One call of \<^verbatim>\<open>pollStatus\<close>, given what its fetch yields. The closure that the
  function returns (lines 536 and 560) is the value of a promise that none of the three
  callers (lines 535/559, 570 and 597) reads, so the model returns the world alone.\<close>

definition pollStatus ::
  "string option \<Rightarrow> ProcessingState option \<Rightarrow> 'q fetch_result \<Rightarrow> 'q world \<Rightarrow> 'q world" where
  "pollStatus backend st r w =
     (case job_of st of
        None \<Rightarrow>
          emit (Navigate ''/dashboard'' None)
            (emit (ConsoleError ''Job ID not found in state'') w)
      | Some (s, j) \<Rightarrow>
          (let w0 = emit (Fetch (job_url backend j)) w
           in case try_fetch r of
                Inl e \<Rightarrow> catch_block e w0
              | Inr data \<Rightarrow> on_data s data w0))"

subsection \<open>The component around pollStatus\<close>

text \<open>The error view replaces the progress view when \<^verbatim>\<open>error\<close> is truthy (line 578).\<close>

definition Failed :: "'q world \<Rightarrow> bool" where
  "Failed w = (case error w of None \<Rightarrow> False | Some m \<Rightarrow> m \<noteq> [])"

text \<open>The Retry button (lines 594-598).\<close>

definition retry_onClick ::
  "string option \<Rightarrow> ProcessingState option \<Rightarrow> 'q fetch_result \<Rightarrow> 'q world \<Rightarrow> 'q world" where
  "retry_onClick backend st r w = pollStatus backend st r (w\<lparr>error := None, logs := []\<rparr>)"

text \<open>The effect run on mount (lines 568-570) and the cleanup it returns (lines 573-575),
  whose body is a comment.\<close>

definition mount ::
  "string option \<Rightarrow> ProcessingState option \<Rightarrow> 'q fetch_result \<Rightarrow> 'q world \<Rightarrow> 'q world" where
  "mount backend st r w = pollStatus backend st r w"

definition effect_cleanup :: "'q world \<Rightarrow> 'q world" where
  "effect_cleanup w = w"

text \<open>The Cancel button (lines 610-612) navigates away; leaving the route unmounts the
  component, which runs the effect's cleanup.\<close>

definition handleCancel :: "'q world \<Rightarrow> 'q world" where
  "handleCancel w = effect_cleanup (emit (Navigate ''/dashboard'' None) w)"

subsection \<open>The event loop\<close>

text \<open>The timer that fires next: the one due first, the older one among equals.\<close>

fun earliest :: "timer \<Rightarrow> timer list \<Rightarrow> timer" where
  "earliest t [] = t"
| "earliest t (u # us) = (if due u < due t then earliest u us else earliest t us)"

text \<open>Time passes without a timer firing (never beyond the next timer's due time in the
  runs below).\<close>

definition elapse :: "nat \<Rightarrow> 'q world \<Rightarrow> 'q world" where
  "elapse ms w = w\<lparr>now := now w + ms\<rparr>"

text \<open>The next timer fires. \<open>r\<close> is what the fetch yields if the callback is
  \<^verbatim>\<open>pollStatus\<close>.\<close>

definition tick ::
  "string option \<Rightarrow> ProcessingState option \<Rightarrow> 'q fetch_result \<Rightarrow> 'q world \<Rightarrow> 'q world" where
  "tick backend st r w =
     (case timers w of
        [] \<Rightarrow> w
      | t # ts \<Rightarrow>
          (let t' = earliest t ts;
               w1 = w\<lparr>now := max (now w) (due t'), timers := remove1 t' (timers w)\<rparr>
           in case callback t' of
                Resume_backoff \<Rightarrow> after_backoff w1
              | Call_pollStatus \<Rightarrow> pollStatus backend st r w1))"

text \<open>The times at which a request was sent.\<close>

definition fetch_times :: "'q world \<Rightarrow> nat list" where
  "fetch_times w = map fst (filter (\<lambda>(t, e). case e of Fetch u \<Rightarrow> True | _ \<Rightarrow> False) (out w))"

subsection \<open>Inputs used in the examples\<close>

definition job :: ProcessingState where
  "job =
     \<lparr>filename = ''notes.pdf'', questionLanguage = ''en'', explanationLanguage = ''en'',
      numberOfQuestions = ''10'', outputFormat = ''json'', jobId = Some ''abc123''\<rparr>"

text \<open>\<^verbatim>\<open>{status: "in-progress", progress: 40, step: 2, eta: 90}\<close>\<close>

definition in_progress_40 :: "string JobStatus" where
  "in_progress_40 =
     \<lparr>data_status = Some ''in-progress'', data_progress = Some 40, data_step = Some 2,
      data_eta = Some 90, data_logs = None, data_error = None,
      data_questions_generated = None, data_topics_detected = None,
      data_questions_preview = None\<rparr>"

definition body :: "string JobStatus \<Rightarrow> string fetch_result" where
  "body data = Returns \<lparr>ok = True, json = Returns data\<rparr>"

definition network_down :: "string fetch_result" where
  "network_down = Throws (Error ''Failed to fetch'')"

definition completed_bare :: "string JobStatus" where
  "completed_bare =
     \<lparr>data_status = Some ''completed'', data_progress = Some 100, data_step = Some 4,
      data_eta = Some 0, data_logs = None, data_error = None,
      data_questions_generated = None, data_topics_detected = None,
      data_questions_preview = None\<rparr>"


text \<open>\<^verbatim>\<open>{status: "error", progress: 40, step: 2, eta: 90, error: "disk full"}\<close>\<close>

definition error_disk_full :: "string JobStatus" where
  "error_disk_full =
     \<lparr>data_status = Some ''error'', data_progress = Some 40, data_step = Some 2,
      data_eta = Some 90, data_logs = None, data_error = Some ''disk full'',
      data_questions_generated = None, data_topics_detected = None,
      data_questions_preview = None\<rparr>"

section \<open>Properties\<close>

subsection \<open>Shared facts\<close>

lemma job_of_None_iff:
  "job_of st = None \<longleftrightarrow>
     (case st of None \<Rightarrow> True | Some s \<Rightarrow> jobId s = None \<or> jobId s = Some [])"
  by (auto simp: job_of_def split: option.splits)

lemma job_of_job: "job_of (Some job) = Some (job, ''abc123'')"
  by (simp add: job_of_def job_def)

lemma pollStatus_job:
  assumes "job_of st = Some (s, j)"
  shows "pollStatus backend st r w =
     (case try_fetch r of
        Inl e \<Rightarrow> catch_block e (emit (Fetch (job_url backend j)) w)
      | Inr data \<Rightarrow> on_data s data (emit (Fetch (job_url backend j)) w))"
  using assms by (simp add: pollStatus_def Let_def)

lemma catch_block_frame:
  "out (catch_block e w) = out w \<and> now (catch_block e w) = now w"
  by (simp add: catch_block_def setTimeout_def Let_def)

lemma on_data_frame:
  "fetch_times (on_data s data w) = fetch_times w \<and> now (on_data s data w) = now w
   \<and> retryCount (on_data s data w) = retryCount w"
  by (simp add: on_data_def setTimeout_def emit_def fetch_times_def Let_def)

lemma pollStatus_sends_request:
  assumes "job_of st = Some (s, j)"
  shows "fetch_times (pollStatus backend st r w) = fetch_times w @ [now w]"
proof (cases "try_fetch r")
  case (Inl e)
  then show ?thesis
    using assms catch_block_frame [of e "emit (Fetch (job_url backend j)) w"]
    by (simp add: pollStatus_job emit_def fetch_times_def)
next
  case (Inr data)
  then show ?thesis
    using assms on_data_frame [of s data "emit (Fetch (job_url backend j)) w"]
    by (simp add: pollStatus_job emit_def fetch_times_def)
qed

lemma tick_single:
  assumes "timers w = [t]"
  shows "tick backend st r w =
     (case callback t of
        Resume_backoff \<Rightarrow> after_backoff (w\<lparr>now := max (now w) (due t), timers := []\<rparr>)
      | Call_pollStatus \<Rightarrow> pollStatus backend st r (w\<lparr>now := max (now w) (due t), timers := []\<rparr>))"
  using assms by (simp add: tick_def Let_def split: callback.splits)

lemma success_keeps_retryCount:
  assumes "try_fetch r = Inr data"
  shows "retryCount (pollStatus backend st r w) = retryCount w"
proof (cases "job_of st")
  case None
  then show ?thesis by (simp add: pollStatus_def emit_def)
next
  case (Some p)
  obtain s j where "p = (s, j)" by (cases p)
  with Some assms show ?thesis
    by (simp add: pollStatus_job on_data_frame emit_def)
qed

lemma try_fetch_network_down: "try_fetch network_down = Inl (Error ''Failed to fetch'')"
  by (simp add: try_fetch_def network_down_def)

lemma try_fetch_body: "try_fetch (body data) = Inr data"
  by (simp add: try_fetch_def body_def)

lemma initial_fields:
  "now (initial x) = 0" "timers (initial x) = []" "out (initial x) = []"
  "logs (initial x) = []" "error (initial x) = None" "retryCount (initial x) = x"
  "progress (initial x) = 0" "currentStep (initial x) = 0" "estimatedTime (initial x) = 60"
  by (simp_all add: initial_def)

lemma fetch_times_initial: "fetch_times (initial x) = []"
  by (simp add: fetch_times_def initial_def)

lemma statusLog_in_progress_40:
  "statusLog in_progress_40 = ''Status: in-progress - 40% complete - Step 2''"
  by code_simp

lemma data_in_progress_40:
  "data_status in_progress_40 = Some ''in-progress''" "data_progress in_progress_40 = Some 40"
  "data_step in_progress_40 = Some 2" "data_eta in_progress_40 = Some 90"
  by (simp_all add: in_progress_40_def)

lemma data_error_disk_full:
  "data_status error_disk_full = Some ''error''" "data_error error_disk_full = Some ''disk full''"
  by (simp_all add: error_disk_full_def)


lemma handleCancel_keeps_timers: "timers (handleCancel w) = timers w"
  by (simp add: handleCancel_def effect_cleanup_def emit_def)

lemma retry_onClick_success_keeps_retryCount:
  assumes "try_fetch r = Inr data"
  shows "retryCount (retry_onClick backend st r w) = retryCount w"
  using assms by (simp add: retry_onClick_def success_keeps_retryCount)

text \<open>The equations that evaluate a run of the component on the example job.\<close>

lemmas run_defs =
  mount_def pollStatus_job [OF job_of_job] try_fetch_network_down try_fetch_body
  catch_block_def on_data_def emit_def setTimeout_def tick_def after_backoff_def
  fetch_times_def initial_def elapse_def handleCancel_def effect_cleanup_def
  retry_onClick_def job_url_def or_str_def or_num_def Failed_def Let_def


subsection \<open>The stage list\<close>

text \<open>
  C3, as the specification states it: for a step value \<open>s\<close> and a stage index \<open>i\<close>,
  both in 0..4, stage \<open>i\<close> is shown completed when \<open>i < s\<close>, in progress when
  \<open>i = s\<close> and pending when \<open>i > s\<close>. The component does otherwise at \<open>s = 2\<close>,
  \<open>i = 2\<close>: the third entry tests \<^verbatim>\<open>currentStep >= 2\<close> first, so the stage is
  completed, not in progress.
\<close>

theorem stage_status_counterexample:
  "status (steps 2 ! 2) = completed \<and> status (steps 2 ! 2) \<noteq> in_progress"
  by (simp add: steps_def)

text \<open>
  C3, amended: stage 0 (the upload) is always completed; for \<open>i\<close> in 1..4 stage \<open>i\<close>
  is completed when \<open>i \<le> s\<close>, in progress when \<open>i = s + 1\<close> and pending when
  \<open>i > s + 1\<close>. The step value counts the stages behind the upload. It holds for every
  integer \<open>s\<close>, in particular for \<open>s\<close> in 0..4.
\<close>

theorem stage_status:
  assumes "i < 5"
  shows "status (steps s ! i) =
     (if i = 0 then completed
      else if int i \<le> s then completed
      else if int i = s + 1 then in_progress
      else pending)"
proof -
  from assms consider "i = 0" | "i = 1" | "i = 2" | "i = 3" | "i = 4"
    by linarith
  then show ?thesis
    by cases (auto simp: steps_def)
qed

theorem stage_status_witness:
  "(3::nat) < 5 \<and> status (steps 2 ! 3) = in_progress
   \<and> (1::nat) < 5 \<and> status (steps 2 ! 1) = completed
   \<and> (4::nat) < 5 \<and> status (steps 2 ! 4) = pending"
  using stage_status [of 3 2] stage_status [of 1 2] stage_status [of 4 2]
  by simp

subsection \<open>No job id\<close>

text \<open>
  C7: when the component is mounted and its navigation state carries no job id (no
  state, no \<^verbatim>\<open>jobId\<close> field, or an empty one), the poll function logs the
  configuration failure to the console and navigates to \<^verbatim>\<open>/dashboard\<close>,
  whatever a fetch would have yielded. Nothing else changes: no request is sent, no timer
  is set, the retry counter is untouched, so nothing is retried.
\<close>

theorem mount_without_jobId:
  assumes "job_of st = None"
  shows "mount backend st r w =
           w\<lparr>out := out w @ [(now w, ConsoleError ''Job ID not found in state''),
                              (now w, Navigate ''/dashboard'' None)]\<rparr>
         \<and> fetch_times (mount backend st r w) = fetch_times w
         \<and> timers (mount backend st r w) = timers w
         \<and> retryCount (mount backend st r w) = retryCount w"
  using assms by (simp add: mount_def pollStatus_def emit_def fetch_times_def)

theorem mount_without_jobId_witness:
  "job_of (Some (job\<lparr>jobId := Some []\<rparr>)) = None
   \<and> out (mount None (Some (job\<lparr>jobId := Some []\<rparr>)) network_down (initial None))
       = [(0, ConsoleError ''Job ID not found in state''), (0, Navigate ''/dashboard'' None)]
   \<and> fetch_times (mount None (Some (job\<lparr>jobId := Some []\<rparr>)) network_down (initial None)) = []
   \<and> timers (mount None (Some (job\<lparr>jobId := Some []\<rparr>)) network_down (initial None)) = []"
proof -
  have h: "job_of (Some (job\<lparr>jobId := Some []\<rparr>)) = None"
    by (simp add: job_of_def)
  show ?thesis
    using h mount_without_jobId [OF h, of None network_down "initial None"]
    by (simp add: initial_def fetch_times_def)
qed

subsection \<open>Transport failure\<close>




subsection \<open>Transport success and the retry counter\<close>

text \<open>
  C2 says that every poll cycle whose fetch succeeds resets the retry counter to 0. The
  \<^verbatim>\<open>try\<close> block never touches \<^verbatim>\<open>localStorage\<close>; the key is removed only at the
  fifth failure (line 551). Evaluated on the example job: a successful cycle entered with
  the counter at 3 leaves it at 3; and in a run where the first request fails and the
  second, sent at 4000 ms, succeeds with the snapshot in progress at 40 percent, the
  counter stays at 1.
\<close>

theorem success_keeps_counter_run:
  "retryCount (pollStatus None (Some job) (body in_progress_40) (initial (Some 3))) = Some 3
   \<and> (let w1 = mount None (Some job) network_down (initial None);
           w2 = tick None (Some job) (body in_progress_40)
                  (tick None (Some job) network_down w1)
       in retryCount w1 = Some 1
          \<and> (fetch_times w2, progress w2, error w2, retryCount w2)
              = ([0, 4000], 40, None, Some 1))"
  by (simp add: run_defs data_in_progress_40)

subsection \<open>A snapshot with status error\<close>

text \<open>
  C4, as the specification states it: the message of the Failed state equals the
  snapshot's \<^verbatim>\<open>error\<close> field when the field is present. For the body
  \<^verbatim>\<open>{status: "error", ..., error: ""}\<close> the field is present and empty, and the
  component shows the generic text, since \<^verbatim>\<open>data.error || 'An error occurred'\<close> takes
  the right operand for an empty string.
\<close>

theorem empty_error_field_counterexample:
  "error (pollStatus None (Some job) (body (error_disk_full\<lparr>data_error := Some []\<rparr>))
            (initial None))
     = Some ''An error occurred''
   \<and> error (pollStatus None (Some job) (body (error_disk_full\<lparr>data_error := Some []\<rparr>))
            (initial None))
     \<noteq> data_error (error_disk_full\<lparr>data_error := Some []\<rparr>)"
  by (simp add: pollStatus_job [OF job_of_job] try_fetch_body on_data_def emit_def
      error_disk_full_def or_str_def Let_def)

text \<open>
  C4, amended. For every successfully fetched snapshot with status \<^verbatim>\<open>"error"\<close> the
  error state is set and the error view shows; the message is the snapshot's
  \<^verbatim>\<open>error\<close> field when that is present and not empty, and
  \<^verbatim>\<open>"An error occurred"\<close> when it is absent or empty. The status line and the
  message are appended to the transcript, and polling stops: the request of this cycle
  is the only output and no timer is set.
\<close>

theorem backend_error_cycle:
  assumes job: "job_of st = Some (s, j)"
    and ok: "try_fetch r = Inr data"
    and err: "data_status data = Some ''error''"
    and w': "w' = pollStatus backend st r w"
    and m: "m = (case data_error data of
                   None \<Rightarrow> ''An error occurred''
                 | Some t \<Rightarrow> if t = [] then ''An error occurred'' else t)"
  shows "error w' = Some m \<and> Failed w'
     \<and> logs w' = logs w @ [statusLog data, m]
     \<and> timers w' = timers w
     \<and> out w' = out w @ [(now w, Fetch (job_url backend j))]"
  using job ok err w' m
  by (simp add: pollStatus_job on_data_def emit_def Failed_def or_str_def Let_def
      split: option.splits)

theorem backend_error_cycle_witness:
  "job_of (Some job) = Some (job, ''abc123'')
   \<and> try_fetch (body error_disk_full) = Inr error_disk_full
   \<and> data_status error_disk_full = Some ''error''
   \<and> error (pollStatus None (Some job) (body error_disk_full) (initial None)) = Some ''disk full''
   \<and> Failed (pollStatus None (Some job) (body error_disk_full) (initial None))
   \<and> timers (pollStatus None (Some job) (body error_disk_full) (initial None)) = []
   \<and> error (pollStatus None (Some job) (body (error_disk_full\<lparr>data_error := None\<rparr>))
              (initial None))
       = Some ''An error occurred''"
proof -
  have e1: "data_status error_disk_full = Some ''error''"
    and e2: "data_status (error_disk_full\<lparr>data_error := None\<rparr>) = Some ''error''"
    by (simp_all add: error_disk_full_def)
  have m1: "''disk full'' = (case data_error error_disk_full of
                   None \<Rightarrow> ''An error occurred''
                 | Some t \<Rightarrow> if t = [] then ''An error occurred'' else t)"
    by (simp add: error_disk_full_def)
  have m2: "''An error occurred'' =
              (case data_error (error_disk_full\<lparr>data_error := None\<rparr>) of
                   None \<Rightarrow> ''An error occurred''
                 | Some t \<Rightarrow> if t = [] then ''An error occurred'' else t)"
    by simp
  show ?thesis
    using job_of_job try_fetch_body [of error_disk_full] e1
      backend_error_cycle [OF job_of_job try_fetch_body e1 refl m1, of None "initial None"]
      backend_error_cycle [OF job_of_job try_fetch_body e2 refl m2, of None "initial None"]
    by (simp add: initial_fields)
qed

subsection \<open>A snapshot with status completed\<close>



text \<open>
  C10: for every successfully fetched snapshot with status \<^verbatim>\<open>"completed"\<close> the cycle
  navigates to \<^verbatim>\<open>/results\<close> with an object whose \<^verbatim>\<open>questionsGenerated\<close>,
  \<^verbatim>\<open>topicsDetected\<close> and \<^verbatim>\<open>questionsPreview\<close> are the snapshot's
  \<^verbatim>\<open>questions_generated\<close>, \<^verbatim>\<open>topics_detected\<close> and \<^verbatim>\<open>questions_preview\<close>
  when these are present, and 0, 0 and the empty list when they are absent. The object
  carries the job id and the fields of the processing state unchanged.
\<close>

theorem handoff_defaults:
  assumes job: "job_of st = Some (s, j)"
    and ok: "try_fetch r = Inr data"
    and fin: "data_status data = Some ''completed''"
  shows "\<exists>p. out (pollStatus backend st r w)
               = out w @ [(now w, Fetch (job_url backend j)),
                          (now w, Navigate ''/results'' (Some p))]
            \<and> questionsGenerated p
                = (case data_questions_generated data of None \<Rightarrow> 0 | Some n \<Rightarrow> n)
            \<and> topicsDetected p
                = (case data_topics_detected data of None \<Rightarrow> 0 | Some n \<Rightarrow> n)
            \<and> questionsPreview p
                = (case data_questions_preview data of None \<Rightarrow> [] | Some qs \<Rightarrow> qs)
            \<and> jobId p = Some j
            \<and> ProcessingState.truncate p = s"
proof -
  have "pollStatus backend st r w = on_data s data (emit (Fetch (job_url backend j)) w)"
    using job ok by (simp add: pollStatus_job)
  then have "out (pollStatus backend st r w)
               = out w @ [(now w, Fetch (job_url backend j)),
                          (now w, Navigate ''/results'' (Some (handoff s data)))]"
    using fin by (simp add: on_data_def emit_def Let_def)
  moreover have "jobId s = Some j"
    using job by (auto simp: job_of_def split: option.splits if_splits)
  then have "jobId (handoff s data) = Some j \<and> ProcessingState.truncate (handoff s data) = s"
    by (simp add: handoff_def ProcessingState.truncate_def)
  moreover have "questionsGenerated (handoff s data)
                = (case data_questions_generated data of None \<Rightarrow> 0 | Some n \<Rightarrow> n)
            \<and> topicsDetected (handoff s data)
                = (case data_topics_detected data of None \<Rightarrow> 0 | Some n \<Rightarrow> n)
            \<and> questionsPreview (handoff s data)
                = (case data_questions_preview data of None \<Rightarrow> [] | Some qs \<Rightarrow> qs)"
    by (simp add: handoff_def or_num_def or_list_def split: option.splits)
  ultimately show ?thesis by blast
qed

theorem handoff_defaults_witness:
  "job_of (Some job) = Some (job, ''abc123'')
   \<and> try_fetch (body completed_bare) = Inr completed_bare
   \<and> data_status completed_bare = Some ''completed''
   \<and> (\<exists>p. out (pollStatus None (Some job) (body completed_bare) (initial None))
               = [(0, Fetch (job_url None ''abc123'')), (0, Navigate ''/results'' (Some p))]
          \<and> questionsGenerated p = 0 \<and> topicsDetected p = 0 \<and> questionsPreview p = []
          \<and> jobId p = Some ''abc123'')"
proof -
  have c: "data_status completed_bare = Some ''completed''"
    by (simp add: completed_bare_def)
  have d: "data_questions_generated completed_bare = None"
    "data_topics_detected completed_bare = None"
    "data_questions_preview completed_bare = None"
    by (simp_all add: completed_bare_def)
  show ?thesis
    using job_of_job try_fetch_body [of completed_bare] c d
      handoff_defaults [OF job_of_job try_fetch_body c, of None "initial None"]
    by (auto simp: initial_fields)
qed

subsection \<open>A snapshot that is neither completed nor an error\<close>

text \<open>
  C6: for every successfully fetched snapshot whose status is neither
  \<^verbatim>\<open>"completed"\<close> nor \<^verbatim>\<open>"error"\<close> (pending, in progress, unrecognised or
  missing), the cycle sets the displayed progress, step and remaining time to the
  snapshot's \<^verbatim>\<open>progress\<close>, \<^verbatim>\<open>step\<close> and \<^verbatim>\<open>eta\<close> (0 for a field that is
  absent), leaves the error state alone, and sets one timer that calls the poll function
  2000 ms later. When no other timer is pending, the next request is sent exactly
  2000 ms after this one.
\<close>

theorem continue_cycle:
  assumes job: "job_of st = Some (s, j)"
    and ok: "try_fetch r = Inr data"
    and nc: "data_status data \<noteq> Some ''completed''"
    and ne: "data_status data \<noteq> Some ''error''"
    and w': "w' = pollStatus backend st r w"
  shows "progress w' = (case data_progress data of None \<Rightarrow> 0 | Some p \<Rightarrow> p)
     \<and> currentStep w' = (case data_step data of None \<Rightarrow> 0 | Some p \<Rightarrow> p)
     \<and> estimatedTime w' = (case data_eta data of None \<Rightarrow> 0 | Some p \<Rightarrow> p)
     \<and> error w' = error w
     \<and> timers w' = timers w @ [\<lparr>due = now w + 2000, callback = Call_pollStatus\<rparr>]
     \<and> (timers w = [] \<longrightarrow>
          fetch_times (tick backend st r2 w') = fetch_times w @ [now w, now w + 2000])"
proof -
  let ?w0 = "emit (Fetch (job_url backend j)) w"
  have eq: "w' = on_data s data ?w0"
    using job ok w' by (simp add: pollStatus_job)
  have fields: "progress w' = (case data_progress data of None \<Rightarrow> 0 | Some p \<Rightarrow> p)
     \<and> currentStep w' = (case data_step data of None \<Rightarrow> 0 | Some p \<Rightarrow> p)
     \<and> estimatedTime w' = (case data_eta data of None \<Rightarrow> 0 | Some p \<Rightarrow> p)
     \<and> error w' = error w \<and> now w' = now w
     \<and> timers w' = timers w @ [\<lparr>due = now w + 2000, callback = Call_pollStatus\<rparr>]"
    using nc ne unfolding eq
    by (simp add: on_data_def emit_def setTimeout_def or_num_def Let_def split: option.splits)
  have ft: "fetch_times w' = fetch_times w @ [now w]"
    using job w' pollStatus_sends_request by simp
  have next_poll: "fetch_times (tick backend st r2 w') = fetch_times w @ [now w, now w + 2000]"
    if empty: "timers w = []"
  proof -
    let ?u = "\<lparr>due = now w + 2000, callback = Call_pollStatus\<rparr>"
    let ?w1 = "w'\<lparr>now := now w + 2000, timers := []\<rparr>"
    have "tick backend st r2 w' = pollStatus backend st r2 ?w1"
      using fields empty tick_single [of w' ?u backend st r2] by (simp add: max_def)
    moreover have "fetch_times (pollStatus backend st r2 ?w1) = fetch_times ?w1 @ [now ?w1]"
      using job by (rule pollStatus_sends_request)
    ultimately show ?thesis
      using ft by (simp add: fetch_times_def)
  qed
  show ?thesis
    using fields next_poll by simp
qed

theorem continue_cycle_witness:
  "job_of (Some job) = Some (job, ''abc123'')
   \<and> try_fetch (body in_progress_40) = Inr in_progress_40
   \<and> data_status in_progress_40 \<noteq> Some ''completed''
   \<and> data_status in_progress_40 \<noteq> Some ''error''
   \<and> progress (pollStatus None (Some job) (body in_progress_40) (initial None)) = 40
   \<and> currentStep (pollStatus None (Some job) (body in_progress_40) (initial None)) = 2
   \<and> estimatedTime (pollStatus None (Some job) (body in_progress_40) (initial None)) = 90
   \<and> timers (pollStatus None (Some job) (body in_progress_40) (initial None))
       = [\<lparr>due = 2000, callback = Call_pollStatus\<rparr>]
   \<and> fetch_times (tick None (Some job) network_down
        (pollStatus None (Some job) (body in_progress_40) (initial None))) = [0, 2000]"
proof -
  have nc: "data_status in_progress_40 \<noteq> Some ''completed''"
    and ne: "data_status in_progress_40 \<noteq> Some ''error''"
    by (simp_all add: in_progress_40_def)
  show ?thesis
    using job_of_job try_fetch_body [of in_progress_40] nc ne data_in_progress_40
      continue_cycle [OF job_of_job try_fetch_body nc ne refl,
        of None "initial None" network_down]
    by (simp add: initial_fields fetch_times_initial)
qed

subsection \<open>Cancel and teardown\<close>

text \<open>
  C8 says that cancelling or tearing down the view invalidates every pending timer, so
  that a cancel during a backoff wait is followed by no fetch. The closures that would
  call \<^verbatim>\<open>clearTimeout\<close> are return values of \<^verbatim>\<open>pollStatus\<close> that no caller
  reads, and the cleanup of the effect is empty (its comment, line 574, says the timers
  are handled in \<^verbatim>\<open>pollStatus\<close>). Evaluated on the example job: the first request
  fails at time 0 and the backoff timer is due at 2000 ms; Cancel is pressed at 1000 ms;
  the timers are what they were before; the backoff fires at 2000 ms and sets the poll
  timer; at 4000 ms a request is sent, and its answer sets the next poll timer.
\<close>

theorem cancel_mid_backoff_run:
  "(let w1 = mount None (Some job) network_down (initial None);
        w2 = handleCancel (elapse 1000 w1);
        w3 = tick None (Some job) network_down w2;
        w4 = tick None (Some job) (body in_progress_40) w3
    in timers w1 = [\<lparr>due = 2000, callback = Resume_backoff\<rparr>]
       \<and> timers w2 = timers w1
       \<and> timers w3 = [\<lparr>due = 4000, callback = Call_pollStatus\<rparr>]
       \<and> out w4 = [(0, Fetch ''http://localhost:8000/jobs/abc123''),
                    (1000, Navigate ''/dashboard'' None),
                    (4000, Fetch ''http://localhost:8000/jobs/abc123'')]
       \<and> timers w4 = [\<lparr>due = 6000, callback = Call_pollStatus\<rparr>])"
  by (simp add: run_defs data_in_progress_40)

subsection \<open>The Retry button\<close>

text \<open>
  C9 says that a retry from any Failed state clears the error, clears the transcript,
  resets the retry counter to zero and polls again. The handler clears the error and the
  transcript and calls \<^verbatim>\<open>pollStatus\<close>; it does not touch the counter. Evaluated
  on the example job: the first request fails (counter 1), the second, at 4000 ms, is
  answered with status \<^verbatim>\<open>"error"\<close> and the message \<^verbatim>\<open>"disk full"\<close>, which
  shows the error view with the counter still at 1; Retry is pressed 3000 ms later and
  the request it sends is answered with the snapshot in progress at 40 percent. The
  error is cleared, the transcript holds the new status line only, and the counter
  is 1.
\<close>

theorem retry_after_backend_error_run:
  "(let w1 = mount None (Some job) network_down (initial None);
        w2 = tick None (Some job) (body error_disk_full) (tick None (Some job) network_down w1);
        w3 = retry_onClick None (Some job) (body in_progress_40) (elapse 3000 w2)
    in Failed w2 \<and> error w2 = Some ''disk full'' \<and> timers w2 = [] \<and> retryCount w2 = Some 1
       \<and> error w3 = None
       \<and> logs w3 = [''Status: in-progress - 40% complete - Step 2'']
       \<and> fetch_times w3 = [0, 4000, 7000]
       \<and> retryCount w3 = Some 1)"
  by (simp add: run_defs data_in_progress_40 data_error_disk_full statusLog_in_progress_40)

end
